theory Spec2Isabelle
  imports Main "HOL-Library.Char_ord" "HOL-Library.List_Lexorder"
begin

section \<open>The batch manager storage (invokeai/app/services/batch_manager_storage.py)\<close>

text \<open>
  The storage keeps two SQLite tables, \<open>batch_process\<close> and \<open>batch_session\<close>, behind a
  process-wide re-entrant lock. Every public method runs one statement (and, for the
  writers that return a row, one trailing read) while it holds the lock, so a call is a
  function from the store to a result and a new store. The lock itself
  (invokeai/app/services/thread.py) only serialises the calls and has no model here.
\<close>

subsection \<open>Values\<close>

text \<open>
  What a column holds and what \<open>dict(row)\<close> hands to Python: \<open>NULL\<close>/\<open>None\<close>, an
  integer, or text. (The tables have no REAL or BLOB column.)
\<close>

datatype sqlval = SNull | SInt int | SText string

text \<open>The exceptions a call can end in. The first six are the classes of the module;
  \<open>ValidationError\<close> is pydantic's, raised by a model constructor, and \<open>DecodeError\<close>
  stands for whatever \<open>json.loads\<close> or \<open>parse_raw_as\<close> raises on a payload it cannot
  decode. The storage catches neither of the last two.\<close>

datatype error =
    BatchProcessNotFoundException
  | BatchProcessSaveException
  | BatchProcessDeleteException
  | BatchSessionNotFoundException
  | BatchSessionSaveException
  | BatchSessionDeleteException
  | ValidationError
  | DecodeError

text \<open>\<open>Literal["created", "completed", "inprogress", "error"]\<close>\<close>

datatype session_state = Created | Completed | Inprogress | Error

fun state_text :: "session_state \<Rightarrow> string" where
  "state_text Created = ''created''"
| "state_text Completed = ''completed''"
| "state_text Inprogress = ''inprogress''"
| "state_text Error = ''error''"

text \<open>The pydantic models. A \<open>Batch\<close> (\<open>'b\<close>) and a \<open>Graph\<close> (\<open>'g\<close>) are never looked
  into by the storage: it only serialises and parses them.\<close>

record BatchSession =
  sess_batch_id :: string
  session_id :: string
  state :: session_state

record ('b, 'g) BatchProcess =
  batch_id :: "string option"
  batches :: "'b list"
  canceled :: bool
  graph :: "'g"

record BatchSessionChanges =
  ch_state :: "session_state option"

text \<open>
  The serialisers the storage calls and does not define: \<open>Batch.json()\<close>,
  \<open>json.dumps\<close> and \<open>json.loads\<close> on the list of serialised batches,
  \<open>parse_raw_as(Batch, _)\<close>, \<open>Graph.json()\<close> and \<open>parse_raw_as(Graph, _)\<close>. A decoder
  returns \<open>None\<close> where the Python raises. The decoders of a whole column take the
  Python value read from the row, which need not be a string.
\<close>

record ('b, 'g) codec =
  batch_json :: "'b \<Rightarrow> string"
  json_dumps :: "string list \<Rightarrow> string"
  json_loads :: "sqlval \<Rightarrow> string list option"
  parse_batch :: "string \<Rightarrow> 'b option"
  graph_json :: "'g \<Rightarrow> string"
  parse_graph :: "sqlval \<Rightarrow> 'g option"

text \<open>
  What a call cannot decide by itself: the two clocks of the schema
  (\<open>STRFTIME('%Y-%m-%d %H:%M:%f', 'NOW')\<close> of the column defaults and of the session
  trigger, \<open>current_timestamp\<close> of the batch-process trigger), and whether the engine
  raises \<open>sqlite3.Error\<close> for a reason outside the schema (an I/O error, a locked
  file) in the write statement or its commit, or in the read statement.
\<close>

record env =
  strftime_now :: string
  current_timestamp :: string
  write_fails :: bool
  read_fails :: bool

subsection \<open>The tables\<close>

record process_row =
  pr_batch_id :: string
  pr_batches :: string
  pr_graph :: string
  pr_canceled :: int
  pr_created_at :: string
  pr_updated_at :: string
  pr_deleted_at :: "string option"

record session_row =
  sr_batch_id :: string
  sr_session_id :: string
  sr_state :: string
  sr_created_at :: string
  sr_updated_at :: string
  sr_deleted_at :: "string option"

text \<open>Rows are kept in rowid order, which is the order of insertion: a new row gets
  a rowid above every rowid in the table.\<close>

record store =
  batch_process :: "process_row list"
  batch_session :: "session_row list"

definition batch_process_columns :: "string list" where
  "batch_process_columns =
     [''batch_id'', ''batches'', ''graph'', ''canceled'', ''created_at'', ''updated_at'',
      ''deleted_at'']"

definition batch_session_columns :: "string list" where
  "batch_session_columns =
     [''batch_id'', ''session_id'', ''state'', ''created_at'', ''updated_at'', ''deleted_at'']"

definition nullable :: "string option \<Rightarrow> sqlval" where
  "nullable v = (case v of None \<Rightarrow> SNull | Some t \<Rightarrow> SText t)"

text \<open>\<open>dict(row)\<close> for a row of each table (\<open>row_factory = sqlite3.Row\<close>).\<close>

definition process_row_dict :: "process_row \<Rightarrow> (string \<rightharpoonup> sqlval)" where
  "process_row_dict r = map_of
     [(''batch_id'', SText (pr_batch_id r)),
      (''batches'', SText (pr_batches r)),
      (''graph'', SText (pr_graph r)),
      (''canceled'', SInt (pr_canceled r)),
      (''created_at'', SText (pr_created_at r)),
      (''updated_at'', SText (pr_updated_at r)),
      (''deleted_at'', nullable (pr_deleted_at r))]"

definition session_row_dict :: "session_row \<Rightarrow> (string \<rightharpoonup> sqlval)" where
  "session_row_dict r = map_of
     [(''batch_id'', SText (sr_batch_id r)),
      (''session_id'', SText (sr_session_id r)),
      (''state'', SText (sr_state r)),
      (''created_at'', SText (sr_created_at r)),
      (''updated_at'', SText (sr_updated_at r)),
      (''deleted_at'', nullable (sr_deleted_at r))]"

subsection \<open>The WHERE clauses\<close>

text \<open>
  The statements of the module compare a column with a bound parameter (\<open>?\<close>), with a
  string literal (\<open>'created'\<close>) or with another bare identifier, and join comparisons
  with \<open>AND\<close>. A bare identifier is a column name: SQLite resolves it against the
  table when it prepares the statement, and fails with
  \<open>sqlite3.OperationalError: no such column\<close> when the table has no such column,
  whatever the rows are.
\<close>

datatype operand = Col string | Lit string | Param sqlval

datatype cond = SqlEq operand operand | SqlAnd cond cond

fun operand_cols :: "operand \<Rightarrow> string list" where
  "operand_cols (Col c) = [c]"
| "operand_cols (Lit t) = []"
| "operand_cols (Param v) = []"

fun cond_cols :: "cond \<Rightarrow> string list" where
  "cond_cols (SqlEq a b) = operand_cols a @ operand_cols b"
| "cond_cols (SqlAnd p q) = cond_cols p @ cond_cols q"

definition prepare :: "string list \<Rightarrow> cond \<Rightarrow> bool" where
  "prepare cols w = list_all (\<lambda>c. c \<in> set cols) (cond_cols w)"

fun operand_value :: "(string \<rightharpoonup> sqlval) \<Rightarrow> operand \<Rightarrow> sqlval" where
  "operand_value d (Col c) = (case d c of None \<Rightarrow> SNull | Some v \<Rightarrow> v)"
| "operand_value d (Lit t) = SText t"
| "operand_value d (Param v) = v"

text \<open>Three-valued logic: a comparison with \<open>NULL\<close> is unknown (\<open>None\<close>), and a row is
  selected only when the clause is true. The comparisons of the module are between text
  and text or \<open>NULL\<close>, where \<open>=\<close> is equality of the strings.\<close>

fun sql_eq :: "sqlval \<Rightarrow> sqlval \<Rightarrow> bool option" where
  "sql_eq SNull b = None"
| "sql_eq a SNull = None"
| "sql_eq a b = Some (a = b)"

fun sql_and :: "bool option \<Rightarrow> bool option \<Rightarrow> bool option" where
  "sql_and (Some False) q = Some False"
| "sql_and p (Some False) = Some False"
| "sql_and (Some True) (Some True) = Some True"
| "sql_and p q = None"

fun holds :: "(string \<rightharpoonup> sqlval) \<Rightarrow> cond \<Rightarrow> bool option" where
  "holds d (SqlEq a b) = sql_eq (operand_value d a) (operand_value d b)"
| "holds d (SqlAnd p q) = sql_and (holds d p) (holds d q)"

definition selected :: "(string \<rightharpoonup> sqlval) \<Rightarrow> cond \<Rightarrow> bool" where
  "selected d w = (holds d w = Some True)"

text \<open>\<open>SELECT * FROM t WHERE w\<close>: \<open>None\<close> when the statement does not prepare,
  otherwise the selected rows in table order.\<close>

definition sql_select ::
  "string list \<Rightarrow> ('r \<Rightarrow> (string \<rightharpoonup> sqlval)) \<Rightarrow> cond \<Rightarrow> 'r list \<Rightarrow> 'r list option" where
  "sql_select cols view w rows =
     (if prepare cols w then Some (filter (\<lambda>r. selected (view r) w) rows) else None)"

text \<open>\<open>UPDATE t SET ... WHERE w\<close>, with the table's \<open>AFTER UPDATE\<close> trigger folded
  into \<open>upd\<close>: the trigger rewrites \<open>updated_at\<close> of the rows with the key of the
  updated row.\<close>

definition sql_update ::
  "string list \<Rightarrow> ('r \<Rightarrow> (string \<rightharpoonup> sqlval)) \<Rightarrow> cond \<Rightarrow> ('r \<Rightarrow> 'r) \<Rightarrow> 'r list \<Rightarrow> 'r list option"
  where
  "sql_update cols view w upd rows =
     (if prepare cols w then Some (map (\<lambda>r. if selected (view r) w then upd r else r) rows)
      else None)"

text \<open>\<open>DELETE FROM t WHERE w\<close>: the rows deleted and the rows kept.\<close>

definition sql_delete ::
  "string list \<Rightarrow> ('r \<Rightarrow> (string \<rightharpoonup> sqlval)) \<Rightarrow> cond \<Rightarrow> 'r list \<Rightarrow> ('r list \<times> 'r list) option"
  where
  "sql_delete cols view w rows =
     (if prepare cols w
      then Some (filter (\<lambda>r. selected (view r) w) rows,
                 filter (\<lambda>r. \<not> selected (view r) w) rows)
      else None)"

subsection \<open>Deserialisation\<close>

text \<open>\<open>session_dict.get(key, default)\<close>\<close>

definition dict_get :: "(string \<rightharpoonup> sqlval) \<Rightarrow> string \<Rightarrow> sqlval \<Rightarrow> sqlval" where
  "dict_get d k dflt = (case d k of None \<Rightarrow> dflt | Some v \<Rightarrow> v)"

text \<open>Python's \<open>str\<close> of an integer, which pydantic applies to an integer given for a
  \<open>str\<close> field.\<close>

fun str_nat :: "nat \<Rightarrow> string" where
  "str_nat n =
     (if n < 10 then [char_of (48 + n)] else str_nat (n div 10) @ [char_of (48 + n mod 10)])"

declare str_nat.simps [simp del]

definition py_str :: "int \<Rightarrow> string" where
  "py_str i = (if i < 0 then CHR ''-'' # str_nat (nat (- i)) else str_nat (nat i))"

text \<open>The field validators of the models: \<open>str\<close> refuses \<open>None\<close>, \<open>Optional[str]\<close>
  keeps it, and the \<open>Literal\<close> of the state accepts its four strings only.\<close>

fun validate_str :: "sqlval \<Rightarrow> string option" where
  "validate_str SNull = None"
| "validate_str (SInt i) = Some (py_str i)"
| "validate_str (SText t) = Some t"

fun validate_optional_str :: "sqlval \<Rightarrow> string option" where
  "validate_optional_str SNull = None"
| "validate_optional_str (SInt i) = Some (py_str i)"
| "validate_optional_str (SText t) = Some t"

fun validate_state :: "sqlval \<Rightarrow> session_state option" where
  "validate_state (SText t) =
     (if t = ''created'' then Some Created
      else if t = ''completed'' then Some Completed
      else if t = ''inprogress'' then Some Inprogress
      else if t = ''error'' then Some Error
      else None)"
| "validate_state v = None"

text \<open>\<open>[parse_raw_as(Batch, batch) for batch in batches]\<close>: the first batch that does
  not parse ends the comprehension.\<close>

fun parse_batches :: "('b, 'g) codec \<Rightarrow> string list \<Rightarrow> 'b list option" where
  "parse_batches c [] = Some []"
| "parse_batches c (x # xs) =
     (case parse_batch c x of
        None \<Rightarrow> None
      | Some b \<Rightarrow> (case parse_batches c xs of None \<Rightarrow> None | Some bs \<Rightarrow> Some (b # bs)))"

definition deserialize_batch_process ::
  "('b, 'g) codec \<Rightarrow> (string \<rightharpoonup> sqlval) \<Rightarrow> error + ('b, 'g) BatchProcess" where
  "deserialize_batch_process c session_dict =
     (let batch_id = dict_get session_dict ''batch_id'' (SText ''unknown'');
          batches_raw = dict_get session_dict ''batches'' (SText ''unknown'');
          graph_raw = dict_get session_dict ''graph'' (SText ''unknown'');
          canceled = dict_get session_dict ''canceled'' (SInt 0)
      in case json_loads c batches_raw of
           None \<Rightarrow> Inl DecodeError
         | Some raw \<Rightarrow>
             (case parse_batches c raw of
                None \<Rightarrow> Inl DecodeError
              | Some bs \<Rightarrow>
                  (case parse_graph c graph_raw of
                     None \<Rightarrow> Inl DecodeError
                   | Some g \<Rightarrow>
                       Inr \<lparr>batch_id = validate_optional_str batch_id, batches = bs,
                            canceled = (canceled = SInt 1), graph = g\<rparr>)))"

definition deserialize_batch_session :: "(string \<rightharpoonup> sqlval) \<Rightarrow> error + BatchSession" where
  "deserialize_batch_session session_dict =
     (let batch_id = dict_get session_dict ''batch_id'' (SText ''unknown'');
          session_id = dict_get session_dict ''session_id'' (SText ''unknown'');
          state = dict_get session_dict ''state'' (SText ''unknown'')
      in case (validate_str batch_id, validate_str session_id, validate_state state) of
           (Some b, Some i, Some st) \<Rightarrow>
             Inr \<lparr>sess_batch_id = b, session_id = i, state = st\<rparr>
         | _ \<Rightarrow> Inl ValidationError)"

text \<open>\<open>list(map(lambda r: self._deserialize_batch_session(dict(r)), result))\<close>\<close>

fun deserialize_all :: "session_row list \<Rightarrow> error + BatchSession list" where
  "deserialize_all [] = Inr []"
| "deserialize_all (r # rs) =
     (case deserialize_batch_session (session_row_dict r) of
        Inl e \<Rightarrow> Inl e
      | Inr x \<Rightarrow> (case deserialize_all rs of Inl e \<Rightarrow> Inl e | Inr xs \<Rightarrow> Inr (x # xs)))"

subsection \<open>The batch process operations\<close>

text \<open>\<open>DELETE FROM batch_process WHERE batch_id = ?\<close>, with foreign keys enabled on
  the connection: \<open>ON DELETE CASCADE\<close> removes the sessions whose \<open>batch_id\<close> is that
  of a deleted row.\<close>

definition delete_batch_process_rows :: "cond \<Rightarrow> store \<Rightarrow> store option" where
  "delete_batch_process_rows w s =
     (case sql_delete batch_process_columns process_row_dict w (batch_process s) of
        None \<Rightarrow> None
      | Some (gone, kept) \<Rightarrow>
          Some \<lparr>batch_process = kept,
                batch_session =
                  filter (\<lambda>r. sr_batch_id r \<notin> set (map pr_batch_id gone)) (batch_session s)\<rparr>)"

definition delete :: "env \<Rightarrow> string \<Rightarrow> store \<Rightarrow> (error + unit) \<times> store" where
  "delete e bid s =
     (if write_fails e then (Inl BatchProcessDeleteException, s)
      else case delete_batch_process_rows (SqlEq (Col ''batch_id'') (Param (SText bid))) s of
             None \<Rightarrow> (Inl BatchProcessDeleteException, s)
           | Some s' \<Rightarrow> (Inr (), s'))"

text \<open>\<open>INSERT OR IGNORE INTO batch_process (batch_id, batches, graph) VALUES (?, ?, ?)\<close>:
  a \<open>NULL\<close> id breaks \<open>NOT NULL\<close> and an id in the table breaks the primary key, and
  \<open>OR IGNORE\<close> skips the row in both cases. The other columns take their defaults.\<close>

definition insert_or_ignore_batch_process ::
  "env \<Rightarrow> string option \<Rightarrow> string \<Rightarrow> string \<Rightarrow> store \<Rightarrow> store" where
  "insert_or_ignore_batch_process e bid bs g s =
     (case bid of
        None \<Rightarrow> s
      | Some b \<Rightarrow>
          if b \<in> set (map pr_batch_id (batch_process s)) then s
          else s\<lparr>batch_process := batch_process s @
                 [\<lparr>pr_batch_id = b, pr_batches = bs, pr_graph = g, pr_canceled = 0,
                   pr_created_at = strftime_now e, pr_updated_at = strftime_now e,
                   pr_deleted_at = None\<rparr>]\<rparr>)"

text \<open>\<open>get\<close> is given \<open>batch_process.batch_id\<close> by \<open>save\<close>, an \<open>Optional[str]\<close>;
  \<open>None\<close> is bound as \<open>NULL\<close>.\<close>

definition get ::
  "('b, 'g) codec \<Rightarrow> env \<Rightarrow> string option \<Rightarrow> store \<Rightarrow> error + ('b, 'g) BatchProcess" where
  "get c e bid s =
     (if read_fails e then Inl BatchProcessNotFoundException
      else case sql_select batch_process_columns process_row_dict
                  (SqlEq (Col ''batch_id'') (Param (nullable bid))) (batch_process s) of
             None \<Rightarrow> Inl BatchProcessNotFoundException
           | Some [] \<Rightarrow> Inl BatchProcessNotFoundException
           | Some (result # _) \<Rightarrow> deserialize_batch_process c (process_row_dict result))"

definition save ::
  "('b, 'g) codec \<Rightarrow> env \<Rightarrow> ('b, 'g) BatchProcess \<Rightarrow> store
     \<Rightarrow> (error + ('b, 'g) BatchProcess) \<times> store" where
  "save c e p s =
     (let bs = map (batch_json c) (batches p) in
      if write_fails e then (Inl BatchProcessSaveException, s)
      else
        let s' = insert_or_ignore_batch_process e (batch_id p) (json_dumps c bs)
                   (graph_json c (graph p)) s
        in (get c e (batch_id p) s', s'))"

text \<open>\<open>UPDATE batch_process SET canceled = 1 WHERE batch_id = ?\<close>; the trigger
  \<open>tg_batch_process_updated_at\<close> sets \<open>updated_at = current_timestamp\<close> on the row.\<close>

definition cancel :: "env \<Rightarrow> string \<Rightarrow> store \<Rightarrow> (error + unit) \<times> store" where
  "cancel e bid s =
     (if write_fails e then (Inl BatchSessionSaveException, s)
      else case sql_update batch_process_columns process_row_dict
                  (SqlEq (Col ''batch_id'') (Param (SText bid)))
                  (\<lambda>r. r\<lparr>pr_canceled := 1, pr_updated_at := current_timestamp e\<rparr>)
                  (batch_process s) of
             None \<Rightarrow> (Inl BatchSessionSaveException, s)
           | Some rows \<Rightarrow> (Inr (), s\<lparr>batch_process := rows\<rparr>))"

subsection \<open>The batch session operations\<close>

text \<open>\<open>INSERT OR IGNORE INTO batch_session (batch_id, session_id, state) VALUES (?, ?, ?)\<close>:
  a pair in the table breaks the primary key and the row is skipped. \<open>OR IGNORE\<close> does
  not cover the foreign key: a row whose \<open>batch_id\<close> is no batch process fails the
  statement with \<open>sqlite3.IntegrityError\<close> (\<open>None\<close>).\<close>

definition insert_or_ignore_batch_session ::
  "env \<Rightarrow> string \<Rightarrow> string \<Rightarrow> string \<Rightarrow> store \<Rightarrow> store option" where
  "insert_or_ignore_batch_session e bid sid st s =
     (if (bid, sid) \<in> set (map (\<lambda>r. (sr_batch_id r, sr_session_id r)) (batch_session s))
      then Some s
      else if bid \<notin> set (map pr_batch_id (batch_process s)) then None
      else Some (s\<lparr>batch_session := batch_session s @
                 [\<lparr>sr_batch_id = bid, sr_session_id = sid, sr_state = st,
                   sr_created_at = strftime_now e, sr_updated_at = strftime_now e,
                   sr_deleted_at = None\<rparr>]\<rparr>))"

definition get_session :: "env \<Rightarrow> string \<Rightarrow> store \<Rightarrow> error + BatchSession" where
  "get_session e sid s =
     (if read_fails e then Inl BatchSessionNotFoundException
      else case sql_select batch_session_columns session_row_dict
                  (SqlEq (Col ''session_id'') (Param (SText sid))) (batch_session s) of
             None \<Rightarrow> Inl BatchSessionNotFoundException
           | Some [] \<Rightarrow> Inl BatchSessionNotFoundException
           | Some (result # _) \<Rightarrow> deserialize_batch_session (session_row_dict result))"

definition create_session ::
  "env \<Rightarrow> BatchSession \<Rightarrow> store \<Rightarrow> (error + BatchSession) \<times> store" where
  "create_session e session s =
     (if write_fails e then (Inl BatchSessionSaveException, s)
      else case insert_or_ignore_batch_session e (sess_batch_id session) (session_id session)
                  (state_text (state session)) s of
             None \<Rightarrow> (Inl BatchSessionSaveException, s)
           | Some s' \<Rightarrow> (get_session e (session_id session) s', s'))"

text \<open>\<open>... WHERE batch_id = ? AND state = 'created'\<close>, first row. The statement has
  no \<open>ORDER BY\<close>. SQLite answers it through the index
  \<open>idx_batch_session_batch_id_created_at\<close> on \<open>(batch_id, created_at)\<close>, so the rows of
  the batch come in the order of \<open>created_at\<close> (text, compared byte by byte), and in
  rowid order where \<open>created_at\<close> is the same: a stable sort of the selected rows.\<close>

definition get_created_session :: "env \<Rightarrow> string \<Rightarrow> store \<Rightarrow> error + BatchSession" where
  "get_created_session e bid s =
     (if read_fails e then Inl BatchSessionNotFoundException
      else case sql_select batch_session_columns session_row_dict
                  (SqlAnd (SqlEq (Col ''batch_id'') (Param (SText bid)))
                          (SqlEq (Col ''state'') (Lit ''created''))) (batch_session s) of
             None \<Rightarrow> Inl BatchSessionNotFoundException
           | Some rows \<Rightarrow>
               (case sort_key sr_created_at rows of
                  [] \<Rightarrow> Inl BatchSessionNotFoundException
                | result # _ \<Rightarrow> deserialize_batch_session (session_row_dict result)))"

text \<open>\<open>... WHERE batch_id = ? AND state = created\<close>, all rows: here \<open>created\<close> is
  written without quotes. \<open>fetchall\<close> returns a list, never \<open>None\<close>, so the test
  \<open>result is None\<close> after it never holds.\<close>

definition get_created_sessions :: "env \<Rightarrow> string \<Rightarrow> store \<Rightarrow> error + BatchSession list"
  where
  "get_created_sessions e bid s =
     (if read_fails e then Inl BatchSessionNotFoundException
      else case sql_select batch_session_columns session_row_dict
                  (SqlAnd (SqlEq (Col ''batch_id'') (Param (SText bid)))
                          (SqlEq (Col ''state'') (Col ''created''))) (batch_session s) of
             None \<Rightarrow> Inl BatchSessionNotFoundException
           | Some result \<Rightarrow> deserialize_all result)"

text \<open>\<open>UPDATE batch_session SET state = ? WHERE batch_id = ? AND session_id = ?\<close>, run
  when \<open>changes.state is not None\<close>; the trigger \<open>tg_batch_session_updated_at\<close> sets
  \<open>updated_at\<close> on the row. The trailing read is by \<open>session_id\<close> alone.\<close>

definition update_session_state ::
  "env \<Rightarrow> string \<Rightarrow> string \<Rightarrow> BatchSessionChanges \<Rightarrow> store \<Rightarrow> (error + BatchSession) \<times> store"
  where
  "update_session_state e bid sid changes s =
     (case ch_state changes of
        None \<Rightarrow> (get_session e sid s, s)
      | Some st \<Rightarrow>
          (if write_fails e then (Inl BatchSessionSaveException, s)
           else (case sql_update batch_session_columns session_row_dict
                        (SqlAnd (SqlEq (Col ''batch_id'') (Param (SText bid)))
                                (SqlEq (Col ''session_id'') (Param (SText sid))))
                        (\<lambda>r. r\<lparr>sr_state := state_text st, sr_updated_at := strftime_now e\<rparr>)
                        (batch_session s) of
                   None \<Rightarrow> (Inl BatchSessionSaveException, s)
                 | Some rows \<Rightarrow>
                     (let s' = s\<lparr>batch_session := rows\<rparr> in (get_session e sid s', s')))))"

subsection \<open>Calls in sequence\<close>

text \<open>A call of one of the nine public methods, and the store it leaves. The reads
  leave the store as it is (their \<open>rollback\<close> on an error undoes nothing).\<close>

datatype ('b, 'g) operation =
    Delete string
  | Save "('b, 'g) BatchProcess"
  | Get string
  | Cancel string
  | CreateSession BatchSession
  | GetSession string
  | GetCreatedSession string
  | GetCreatedSessions string
  | UpdateSessionState string string BatchSessionChanges

fun apply_operation :: "('b, 'g) codec \<Rightarrow> env \<Rightarrow> ('b, 'g) operation \<Rightarrow> store \<Rightarrow> store" where
  "apply_operation c e (Delete bid) s = snd (delete e bid s)"
| "apply_operation c e (Save p) s = snd (save c e p s)"
| "apply_operation c e (Get bid) s = s"
| "apply_operation c e (Cancel bid) s = snd (cancel e bid s)"
| "apply_operation c e (CreateSession x) s = snd (create_session e x s)"
| "apply_operation c e (GetSession sid) s = s"
| "apply_operation c e (GetCreatedSession bid) s = s"
| "apply_operation c e (GetCreatedSessions bid) s = s"
| "apply_operation c e (UpdateSessionState bid sid ch) s =
     snd (update_session_state e bid sid ch s)"

text \<open>Each call of a sequence has its own clock reading and its own luck with the
  engine.\<close>

fun run :: "('b, 'g) codec \<Rightarrow> (env \<times> ('b, 'g) operation) list \<Rightarrow> store \<Rightarrow> store" where
  "run c [] s = s"
| "run c ((e, x) # rest) s = run c rest (apply_operation c e x s)"

text \<open>The tables \<open>_create_tables\<close> makes in a new file.\<close>

definition empty_store :: store where
  "empty_store = \<lparr>batch_process = [], batch_session = []\<rparr>"

text \<open>The primary keys of the schema: \<open>batch_id\<close> in \<open>batch_process\<close>,
  \<open>(batch_id, session_id)\<close> in \<open>batch_session\<close>.\<close>

definition session_key :: "session_row \<Rightarrow> string \<times> string" where
  "session_key r = (sr_batch_id r, sr_session_id r)"

definition primary_keys :: "store \<Rightarrow> bool" where
  "primary_keys s \<longleftrightarrow>
     distinct (map pr_batch_id (batch_process s)) \<and> distinct (map session_key (batch_session s))"

subsection \<open>Example inputs\<close>

text \<open>A working engine at some instant, and one whose write statement fails.\<close>

definition example_env :: env where
  "example_env =
     \<lparr>strftime_now = ''2023-08-01 10:00:00.000'', current_timestamp = ''2023-08-01 10:00:00'',
      write_fails = False, read_fails = False\<rparr>"

definition failing_env :: env where
  "failing_env = example_env\<lparr>write_fails := True\<rparr>"

text \<open>A stand-in for the serialisers, on batches and graphs that are their own text: a
  list is written as its items, each followed by a semicolon, and a text that does not
  end an item is refused.\<close>

fun split_items :: "string \<Rightarrow> string \<Rightarrow> string list option" where
  "split_items acc [] = (if acc = [] then Some [] else None)"
| "split_items acc (x # xs) =
     (if x = CHR '';'' then map_option ((#) (rev acc)) (split_items [] xs)
      else split_items (x # acc) xs)"

definition example_codec :: "(string, string) codec" where
  "example_codec =
     \<lparr>batch_json = (\<lambda>b. b),
      json_dumps = (\<lambda>xs. concat (map (\<lambda>x. x @ '';'') xs)),
      json_loads = (\<lambda>v. case v of SText t \<Rightarrow> split_items [] t | _ \<Rightarrow> None),
      parse_batch = Some,
      graph_json = (\<lambda>g. g),
      parse_graph = (\<lambda>v. case v of SText t \<Rightarrow> Some t | _ \<Rightarrow> None)\<rparr>"

definition batch_B1 :: "(string, string) BatchProcess" where
  "batch_B1 = \<lparr>batch_id = Some ''B1'', batches = [''n1'', ''n2''], canceled = False, graph = ''G1''\<rparr>"

definition batch_B2 :: "(string, string) BatchProcess" where
  "batch_B2 = \<lparr>batch_id = Some ''B2'', batches = [''n3''], canceled = False, graph = ''G2''\<rparr>"

text \<open>Stores reached from the empty one by calls of the storage.\<close>

definition store_B1 :: store where
  "store_B1 = run example_codec [(example_env, Save batch_B1)] empty_store"

definition store_B1_S1_S2 :: store where
  "store_B1_S1_S2 = run example_codec
     [(example_env, CreateSession \<lparr>sess_batch_id = ''B1'', session_id = ''S1'', state = Created\<rparr>),
      (example_env, CreateSession \<lparr>sess_batch_id = ''B1'', session_id = ''S2'', state = Created\<rparr>)]
     store_B1"

definition store_B1_B2 :: store where
  "store_B1_B2 = run example_codec [(example_env, Save batch_B2)] store_B1"

text \<open>Two batches, each with a session that has the session id \<open>S1\<close>.\<close>

definition store_shared_S1 :: store where
  "store_shared_S1 = run example_codec
     [(example_env, CreateSession \<lparr>sess_batch_id = ''B1'', session_id = ''S1'', state = Created\<rparr>),
      (example_env, CreateSession \<lparr>sess_batch_id = ''B2'', session_id = ''S1'', state = Created\<rparr>)]
     store_B1_B2"

text \<open>Two batches, the second of which alone has a session \<open>S1\<close>.\<close>

definition store_B2_S1 :: store where
  "store_B2_S1 = run example_codec
     [(example_env, CreateSession \<lparr>sess_batch_id = ''B2'', session_id = ''S1'', state = Created\<rparr>)]
     store_B1_B2"

section \<open>Verification\<close>

subsection \<open>What the statements of the module select\<close>

lemma prepare_process_id:
  "prepare batch_process_columns (SqlEq (Col ''batch_id'') (Param v))"
  by (simp add: prepare_def batch_process_columns_def)

lemma prepare_session_id:
  "prepare batch_session_columns (SqlEq (Col ''session_id'') (Param v))"
  by (simp add: prepare_def batch_session_columns_def)

lemma prepare_session_key:
  "prepare batch_session_columns
     (SqlAnd (SqlEq (Col ''batch_id'') (Param v)) (SqlEq (Col ''session_id'') (Param w)))"
  by (simp add: prepare_def batch_session_columns_def)

lemma prepare_created_literal:
  "prepare batch_session_columns
     (SqlAnd (SqlEq (Col ''batch_id'') (Param v)) (SqlEq (Col ''state'') (Lit t)))"
  by (simp add: prepare_def batch_session_columns_def)

lemma no_column_created:
  "\<not> prepare batch_session_columns
     (SqlAnd (SqlEq (Col ''batch_id'') (Param v)) (SqlEq (Col ''state'') (Col ''created'')))"
  by (simp add: prepare_def batch_session_columns_def)

lemma selected_process_id:
  "selected (process_row_dict r) (SqlEq (Col ''batch_id'') (Param (SText bid)))
     \<longleftrightarrow> pr_batch_id r = bid"
  by (simp add: selected_def process_row_dict_def)

lemma selected_process_null:
  "\<not> selected (process_row_dict r) (SqlEq (Col ''batch_id'') (Param SNull))"
  by (simp add: selected_def process_row_dict_def)

lemma selected_session_id:
  "selected (session_row_dict r) (SqlEq (Col ''session_id'') (Param (SText sid)))
     \<longleftrightarrow> sr_session_id r = sid"
  by (simp add: selected_def session_row_dict_def)

lemma sql_and_True: "sql_and p q = Some True \<longleftrightarrow> p = Some True \<and> q = Some True"
  by (cases "(p, q)" rule: sql_and.cases) auto

lemma selected_session_key:
  "selected (session_row_dict r)
     (SqlAnd (SqlEq (Col ''batch_id'') (Param (SText bid)))
             (SqlEq (Col ''session_id'') (Param (SText sid))))
     \<longleftrightarrow> sr_batch_id r = bid \<and> sr_session_id r = sid"
  by (simp add: selected_def session_row_dict_def sql_and_True)

lemma selected_created:
  "selected (session_row_dict r)
     (SqlAnd (SqlEq (Col ''batch_id'') (Param (SText bid)))
             (SqlEq (Col ''state'') (Lit ''created'')))
     \<longleftrightarrow> sr_batch_id r = bid \<and> sr_state r = ''created''"
  by (simp add: selected_def session_row_dict_def sql_and_True)

lemma first_of_filter:
  "(case filter P xs of [] \<Rightarrow> a | r # rest \<Rightarrow> f r) = (case find P xs of None \<Rightarrow> a | Some r \<Rightarrow> f r)"
  by (induction xs) auto

subsection \<open>The operations, statement by statement\<close>

lemma delete_eq:
  "delete e bid s =
     (if write_fails e then (Inl BatchProcessDeleteException, s)
      else (Inr (),
            \<lparr>batch_process = filter (\<lambda>r. pr_batch_id r \<noteq> bid) (batch_process s),
             batch_session =
               filter (\<lambda>r. \<not> (sr_batch_id r = bid \<and> bid \<in> set (map pr_batch_id (batch_process s))))
                 (batch_session s)\<rparr>))"
proof -
  have "sr_batch_id r \<notin> set (map pr_batch_id (filter (\<lambda>r. pr_batch_id r = bid) (batch_process s)))
          \<longleftrightarrow> \<not> (sr_batch_id r = bid \<and> bid \<in> set (map pr_batch_id (batch_process s)))"
    for r :: session_row
    by force
  then show ?thesis
    by (simp add: delete_def delete_batch_process_rows_def sql_delete_def prepare_process_id
        selected_process_id)
qed

lemma cancel_eq:
  "cancel e bid s =
     (if write_fails e then (Inl BatchSessionSaveException, s)
      else (Inr (),
            s\<lparr>batch_process :=
                map (\<lambda>r. if pr_batch_id r = bid
                          then r\<lparr>pr_canceled := 1, pr_updated_at := current_timestamp e\<rparr> else r)
                  (batch_process s)\<rparr>))"
  by (simp add: cancel_def sql_update_def prepare_process_id selected_process_id)

lemma deserialize_process_row:
  "deserialize_batch_process c (process_row_dict r) =
     (case json_loads c (SText (pr_batches r)) of
        None \<Rightarrow> Inl DecodeError
      | Some raw \<Rightarrow>
          (case parse_batches c raw of
             None \<Rightarrow> Inl DecodeError
           | Some bs \<Rightarrow>
               (case parse_graph c (SText (pr_graph r)) of
                  None \<Rightarrow> Inl DecodeError
                | Some g \<Rightarrow>
                    Inr \<lparr>batch_id = Some (pr_batch_id r), batches = bs,
                         canceled = (pr_canceled r = 1), graph = g\<rparr>)))"
  by (simp add: deserialize_batch_process_def dict_get_def process_row_dict_def
      split: option.splits)

lemma deserialize_session_row:
  "deserialize_batch_session (session_row_dict r) =
     (case validate_state (SText (sr_state r)) of
        None \<Rightarrow> Inl ValidationError
      | Some st \<Rightarrow> Inr \<lparr>sess_batch_id = sr_batch_id r, session_id = sr_session_id r, state = st\<rparr>)"
  by (simp add: deserialize_batch_session_def dict_get_def session_row_dict_def
      split: option.splits)

lemma get_eq:
  "get c e (Some bid) s =
     (if read_fails e then Inl BatchProcessNotFoundException
      else case find (\<lambda>r. pr_batch_id r = bid) (batch_process s) of
             None \<Rightarrow> Inl BatchProcessNotFoundException
           | Some r \<Rightarrow> deserialize_batch_process c (process_row_dict r))"
  by (simp add: get_def sql_select_def prepare_process_id selected_process_id nullable_def
      first_of_filter)

lemma get_None: "get c e None s = Inl BatchProcessNotFoundException"
  by (simp add: get_def sql_select_def prepare_process_id selected_process_null nullable_def)

lemma get_session_eq:
  "get_session e sid s =
     (if read_fails e then Inl BatchSessionNotFoundException
      else case find (\<lambda>r. sr_session_id r = sid) (batch_session s) of
             None \<Rightarrow> Inl BatchSessionNotFoundException
           | Some r \<Rightarrow> deserialize_batch_session (session_row_dict r))"
  by (simp add: get_session_def sql_select_def prepare_session_id selected_session_id
      first_of_filter)

lemma update_session_state_eq:
  "update_session_state e bid sid \<lparr>ch_state = Some st\<rparr> s =
     (if write_fails e then (Inl BatchSessionSaveException, s)
      else (get_session e sid
              (s\<lparr>batch_session :=
                  map (\<lambda>r. if sr_batch_id r = bid \<and> sr_session_id r = sid
                            then r\<lparr>sr_state := state_text st, sr_updated_at := strftime_now e\<rparr>
                            else r) (batch_session s)\<rparr>),
            s\<lparr>batch_session :=
                  map (\<lambda>r. if sr_batch_id r = bid \<and> sr_session_id r = sid
                            then r\<lparr>sr_state := state_text st, sr_updated_at := strftime_now e\<rparr>
                            else r) (batch_session s)\<rparr>))"
  by (simp add: update_session_state_def sql_update_def prepare_session_key selected_session_key
      Let_def)

lemma save_store:
  "snd (save c e p s) =
     (if write_fails e then s
      else insert_or_ignore_batch_process e (batch_id p)
             (json_dumps c (map (batch_json c) (batches p))) (graph_json c (graph p)) s)"
  by (simp add: save_def Let_def)

lemma create_session_store:
  "snd (create_session e x s) =
     (if write_fails e then s
      else case insert_or_ignore_batch_session e (sess_batch_id x) (session_id x)
                  (state_text (state x)) s of
             None \<Rightarrow> s
           | Some s' \<Rightarrow> s')"
  by (simp add: create_session_def split: option.splits)

subsection \<open>The example stores\<close>

lemma example_env_works [simp]:
  "\<not> write_fails example_env" "\<not> read_fails example_env"
  "strftime_now example_env = ''2023-08-01 10:00:00.000''"
  "current_timestamp example_env = ''2023-08-01 10:00:00''"
  by (simp_all add: example_env_def)

lemma store_B1_value:
  "store_B1 =
     \<lparr>batch_process =
        [\<lparr>pr_batch_id = ''B1'', pr_batches = ''n1;n2;'', pr_graph = ''G1'', pr_canceled = 0,
          pr_created_at = ''2023-08-01 10:00:00.000'', pr_updated_at = ''2023-08-01 10:00:00.000'',
          pr_deleted_at = None\<rparr>],
      batch_session = []\<rparr>"
  by (simp add: store_B1_def empty_store_def save_store insert_or_ignore_batch_process_def
      batch_B1_def example_codec_def)

lemma store_B1_B2_value:
  "store_B1_B2 =
     \<lparr>batch_process =
        [\<lparr>pr_batch_id = ''B1'', pr_batches = ''n1;n2;'', pr_graph = ''G1'', pr_canceled = 0,
          pr_created_at = ''2023-08-01 10:00:00.000'', pr_updated_at = ''2023-08-01 10:00:00.000'',
          pr_deleted_at = None\<rparr>,
         \<lparr>pr_batch_id = ''B2'', pr_batches = ''n3;'', pr_graph = ''G2'', pr_canceled = 0,
          pr_created_at = ''2023-08-01 10:00:00.000'', pr_updated_at = ''2023-08-01 10:00:00.000'',
          pr_deleted_at = None\<rparr>],
      batch_session = []\<rparr>"
  by (simp add: store_B1_B2_def store_B1_value save_store insert_or_ignore_batch_process_def
      batch_B2_def example_codec_def)

lemma store_B1_S1_S2_value:
  "store_B1_S1_S2 =
     \<lparr>batch_process =
        [\<lparr>pr_batch_id = ''B1'', pr_batches = ''n1;n2;'', pr_graph = ''G1'', pr_canceled = 0,
          pr_created_at = ''2023-08-01 10:00:00.000'', pr_updated_at = ''2023-08-01 10:00:00.000'',
          pr_deleted_at = None\<rparr>],
      batch_session =
        [\<lparr>sr_batch_id = ''B1'', sr_session_id = ''S1'', sr_state = ''created'',
          sr_created_at = ''2023-08-01 10:00:00.000'', sr_updated_at = ''2023-08-01 10:00:00.000'',
          sr_deleted_at = None\<rparr>,
         \<lparr>sr_batch_id = ''B1'', sr_session_id = ''S2'', sr_state = ''created'',
          sr_created_at = ''2023-08-01 10:00:00.000'', sr_updated_at = ''2023-08-01 10:00:00.000'',
          sr_deleted_at = None\<rparr>]\<rparr>"
  by (simp add: store_B1_S1_S2_def store_B1_value create_session_store
      insert_or_ignore_batch_session_def)

lemma store_shared_S1_value:
  "store_shared_S1 =
     \<lparr>batch_process =
        [\<lparr>pr_batch_id = ''B1'', pr_batches = ''n1;n2;'', pr_graph = ''G1'', pr_canceled = 0,
          pr_created_at = ''2023-08-01 10:00:00.000'', pr_updated_at = ''2023-08-01 10:00:00.000'',
          pr_deleted_at = None\<rparr>,
         \<lparr>pr_batch_id = ''B2'', pr_batches = ''n3;'', pr_graph = ''G2'', pr_canceled = 0,
          pr_created_at = ''2023-08-01 10:00:00.000'', pr_updated_at = ''2023-08-01 10:00:00.000'',
          pr_deleted_at = None\<rparr>],
      batch_session =
        [\<lparr>sr_batch_id = ''B1'', sr_session_id = ''S1'', sr_state = ''created'',
          sr_created_at = ''2023-08-01 10:00:00.000'', sr_updated_at = ''2023-08-01 10:00:00.000'',
          sr_deleted_at = None\<rparr>,
         \<lparr>sr_batch_id = ''B2'', sr_session_id = ''S1'', sr_state = ''created'',
          sr_created_at = ''2023-08-01 10:00:00.000'', sr_updated_at = ''2023-08-01 10:00:00.000'',
          sr_deleted_at = None\<rparr>]\<rparr>"
  by (simp add: store_shared_S1_def store_B1_B2_value create_session_store
      insert_or_ignore_batch_session_def)

lemma store_B2_S1_value:
  "store_B2_S1 =
     \<lparr>batch_process =
        [\<lparr>pr_batch_id = ''B1'', pr_batches = ''n1;n2;'', pr_graph = ''G1'', pr_canceled = 0,
          pr_created_at = ''2023-08-01 10:00:00.000'', pr_updated_at = ''2023-08-01 10:00:00.000'',
          pr_deleted_at = None\<rparr>,
         \<lparr>pr_batch_id = ''B2'', pr_batches = ''n3;'', pr_graph = ''G2'', pr_canceled = 0,
          pr_created_at = ''2023-08-01 10:00:00.000'', pr_updated_at = ''2023-08-01 10:00:00.000'',
          pr_deleted_at = None\<rparr>],
      batch_session =
        [\<lparr>sr_batch_id = ''B2'', sr_session_id = ''S1'', sr_state = ''created'',
          sr_created_at = ''2023-08-01 10:00:00.000'', sr_updated_at = ''2023-08-01 10:00:00.000'',
          sr_deleted_at = None\<rparr>]\<rparr>"
  by (simp add: store_B2_S1_def store_B1_B2_value create_session_store
      insert_or_ignore_batch_session_def)

subsection \<open>Reading the created sessions of a batch\<close>

text \<open>
  C4. The claim: \<open>get_created_sessions(batch_id)\<close> returns the sessions of the batch
  whose state is \<open>created\<close>, in creation order, and fails with
  \<open>BatchSessionNotFoundException\<close> exactly when there is none. The code: the statement
  compares \<open>state\<close> with the bare identifier \<open>created\<close>, which is no column of
  \<open>batch_session\<close>, so the statement never prepares and the method raises
  \<open>BatchSessionNotFoundException\<close> for every batch id and every store.
\<close>

theorem get_created_sessions_raises:
  "get_created_sessions e bid s = Inl BatchSessionNotFoundException"
  by (simp add: get_created_sessions_def sql_select_def no_column_created)

text \<open>With two created sessions \<open>S1\<close>, \<open>S2\<close> under \<open>B1\<close>, the sibling
  \<open>get_created_session\<close>, which quotes \<open>'created'\<close>, finds \<open>S1\<close>;
  \<open>get_created_sessions\<close> raises.\<close>

theorem get_created_sessions_raises_witness:
  "get_created_session example_env ''B1'' store_B1_S1_S2 =
     Inr \<lparr>sess_batch_id = ''B1'', session_id = ''S1'', state = Created\<rparr>
   \<and> get_created_sessions example_env ''B1'' store_B1_S1_S2 = Inl BatchSessionNotFoundException"
  using get_created_sessions_raises [of example_env "''B1''" store_B1_S1_S2]
  by (simp add: get_created_session_def sql_select_def prepare_created_literal selected_created
      store_B1_S1_S2_value deserialize_session_row)

subsection \<open>Creating rows\<close>

lemma find_new_row:
  "\<not> list_ex P xs \<Longrightarrow> P y \<Longrightarrow> find P (xs @ [y]) = Some y"
  by (induction xs) auto

lemma parse_batches_roundtrip:
  "\<forall>b\<in>set bs. parse_batch c (batch_json c b) = Some b
     \<Longrightarrow> parse_batches c (map (batch_json c) bs) = Some bs"
  by (induction bs) auto

lemma create_session_result:
  "\<not> write_fails e \<Longrightarrow>
     insert_or_ignore_batch_session e (sess_batch_id x) (session_id x) (state_text (state x)) s
       = Some s'
     \<Longrightarrow> fst (create_session e x s) = get_session e (session_id x) s'"
  by (simp add: create_session_def)

lemma save_result:
  "\<not> write_fails e \<Longrightarrow>
     fst (save c e p s) = get c e (batch_id p) (snd (save c e p s))"
  by (simp add: save_def Let_def)

text \<open>
  C1. Creation is idempotent. When a row with the batch id of \<open>p\<close> is in the table,
  \<open>save(p)\<close> leaves the whole store as it is, so the row keeps its batches, graph and
  canceled flag, and what \<open>save\<close> returns is the read of that row, not the payload of
  \<open>p\<close>. When a row with the batch id and session id of \<open>x\<close> is in the table,
  \<open>create_session(x)\<close> leaves the store as it is, so the row keeps its state, and what
  it returns is the read of the stored session. (A failed write raises and rolls back:
  the store is unchanged then too.)
\<close>

theorem creation_is_idempotent:
  "(batch_id p = Some bid \<and> bid \<in> set (map pr_batch_id (batch_process s)) \<longrightarrow>
      snd (save c e p s) = s \<and>
      (\<not> write_fails e \<longrightarrow> fst (save c e p s) = get c e (Some bid) s))
   \<and> ((sess_batch_id x, session_id x) \<in> set (map session_key (batch_session s)) \<longrightarrow>
      snd (create_session e x s) = s \<and>
      (\<not> write_fails e \<longrightarrow> fst (create_session e x s) = get_session e (session_id x) s))"
proof (intro conjI impI)
  assume p: "batch_id p = Some bid \<and> bid \<in> set (map pr_batch_id (batch_process s))"
  then show kept: "snd (save c e p s) = s"
    by (simp add: save_store insert_or_ignore_batch_process_def)
  assume "\<not> write_fails e"
  with p kept show "fst (save c e p s) = get c e (Some bid) s"
    by (simp add: save_result)
next
  assume x: "(sess_batch_id x, session_id x) \<in> set (map session_key (batch_session s))"
  then have ins:
    "insert_or_ignore_batch_session e (sess_batch_id x) (session_id x) (state_text (state x)) s
       = Some s"
    by (simp add: insert_or_ignore_batch_session_def session_key_def)
  then show "snd (create_session e x s) = s"
    by (simp add: create_session_store)
  assume "\<not> write_fails e"
  with ins show "fst (create_session e x s) = get_session e (session_id x) s"
    by (simp add: create_session_result)
qed

text \<open>Saving \<open>B1\<close> again with the payload of \<open>B2\<close> keeps and returns the first
  payload; creating \<open>(B1, S1)\<close> again as \<open>completed\<close> keeps and returns \<open>created\<close>.\<close>

theorem creation_is_idempotent_witness:
  "snd (save example_codec example_env (batch_B2\<lparr>batch_id := Some ''B1''\<rparr>) store_B1_S1_S2)
     = store_B1_S1_S2
   \<and> fst (save example_codec example_env (batch_B2\<lparr>batch_id := Some ''B1''\<rparr>) store_B1_S1_S2)
     = Inr batch_B1
   \<and> snd (create_session example_env
            \<lparr>sess_batch_id = ''B1'', session_id = ''S1'', state = Completed\<rparr> store_B1_S1_S2)
     = store_B1_S1_S2
   \<and> fst (create_session example_env
            \<lparr>sess_batch_id = ''B1'', session_id = ''S1'', state = Completed\<rparr> store_B1_S1_S2)
     = Inr \<lparr>sess_batch_id = ''B1'', session_id = ''S1'', state = Created\<rparr>"
proof -
  have g: "get example_codec example_env (Some ''B1'') store_B1_S1_S2 = Inr batch_B1"
    by (simp add: get_eq store_B1_S1_S2_value deserialize_process_row example_codec_def
        batch_B1_def)
  have h: "get_session example_env ''S1'' store_B1_S1_S2
             = Inr \<lparr>sess_batch_id = ''B1'', session_id = ''S1'', state = Created\<rparr>"
    by (simp add: get_session_eq store_B1_S1_S2_value deserialize_session_row)
  show ?thesis
    using creation_is_idempotent [of "batch_B2\<lparr>batch_id := Some ''B1''\<rparr>" "''B1''" store_B1_S1_S2
        example_codec example_env
        "\<lparr>sess_batch_id = ''B1'', session_id = ''S1'', state = Completed\<rparr>"] g h
    by (simp add: store_B1_S1_S2_value session_key_def)
qed

text \<open>
  C2, as the code has it. Round trip. Let the batch id of \<open>p\<close> be a string (not
  \<open>None\<close>) that is in no row, let the engine work, and let the serialisers of the
  batches and of the graph decode what they encode for the payload of \<open>p\<close>. Then
  \<open>save(p)\<close> returns \<open>p\<close> with \<open>canceled\<close> false, whatever flag \<open>p\<close> came with, and a
  \<open>get\<close> of the id afterwards returns the same value.
\<close>

theorem save_get_round_trip:
  assumes "batch_id p = Some bid"
    and "bid \<notin> set (map pr_batch_id (batch_process s))"
    and "\<not> write_fails e" and "\<not> read_fails e" and "\<not> read_fails e'"
    and "json_loads c (SText (json_dumps c (map (batch_json c) (batches p))))
           = Some (map (batch_json c) (batches p))"
    and "\<forall>b\<in>set (batches p). parse_batch c (batch_json c b) = Some b"
    and "parse_graph c (SText (graph_json c (graph p))) = Some (graph p)"
  shows "fst (save c e p s) = Inr (p\<lparr>canceled := False\<rparr>)
       \<and> get c e' (Some bid) (snd (save c e p s)) = Inr (p\<lparr>canceled := False\<rparr>)"
proof -
  let ?row = "\<lparr>pr_batch_id = bid, pr_batches = json_dumps c (map (batch_json c) (batches p)),
               pr_graph = graph_json c (graph p), pr_canceled = 0,
               pr_created_at = strftime_now e, pr_updated_at = strftime_now e,
               pr_deleted_at = None\<rparr>"
  have stored: "snd (save c e p s) = s\<lparr>batch_process := batch_process s @ [?row]\<rparr>"
    using assms(1-3) by (simp add: save_store insert_or_ignore_batch_process_def)
  have "\<not> list_ex (\<lambda>r. pr_batch_id r = bid) (batch_process s)"
    using assms(2) by (auto simp: list_ex_iff)
  then have found: "find (\<lambda>r. pr_batch_id r = bid) (batch_process s @ [?row]) = Some ?row"
    by (rule find_new_row) simp
  have decoded: "deserialize_batch_process c (process_row_dict ?row) = Inr (p\<lparr>canceled := False\<rparr>)"
    using assms(1,6,8) parse_batches_roundtrip [OF assms(7)]
    by (simp add: deserialize_process_row)
  have read: "get c e'' (Some bid) (snd (save c e p s)) = Inr (p\<lparr>canceled := False\<rparr>)"
    if "\<not> read_fails e''" for e''
    using that found decoded by (simp add: get_eq stored)
  show ?thesis
    using read [OF assms(4)] read [OF assms(5)] assms(1,3) by (simp add: save_result)
qed

text \<open>\<open>B2\<close>, handed in as canceled, saved into the store that holds \<open>B1\<close>.\<close>

theorem save_get_round_trip_witness:
  "fst (save example_codec example_env (batch_B2\<lparr>canceled := True\<rparr>) store_B1) = Inr batch_B2
   \<and> get example_codec example_env (Some ''B2'')
       (snd (save example_codec example_env (batch_B2\<lparr>canceled := True\<rparr>) store_B1))
     = Inr batch_B2"
  using save_get_round_trip [of "batch_B2\<lparr>canceled := True\<rparr>" "''B2''" store_B1 example_env
      example_env example_codec]
  by (simp add: batch_B2_def store_B1_value example_codec_def)

text \<open>The claim as stated fails: \<open>batch_id\<close> is an \<open>Optional[str]\<close>. For \<open>B2\<close> with
  its id set to \<open>None\<close>, which is in no row, the insert breaks \<open>NOT NULL\<close> and is
  skipped, so \<open>save\<close> stores nothing and raises \<open>BatchProcessNotFoundException\<close> from
  its trailing read, and so does a \<open>get\<close> of that id afterwards.\<close>

theorem save_get_round_trip_counterexample:
  "save example_codec example_env (batch_B2\<lparr>batch_id := None\<rparr>) store_B1
     = (Inl BatchProcessNotFoundException, store_B1)
   \<and> get example_codec example_env (batch_id (batch_B2\<lparr>batch_id := None\<rparr>))
       (snd (save example_codec example_env (batch_B2\<lparr>batch_id := None\<rparr>) store_B1))
     = Inl BatchProcessNotFoundException"
  by (simp add: save_def Let_def insert_or_ignore_batch_process_def get_None)

subsection \<open>Cancelling\<close>

text \<open>
  C5. The claim: \<open>cancel\<close> sets the flag of the matching row, does nothing and does not
  fail when there is none, and raises the batch-process kind of save error,
  \<open>BatchProcessSaveException\<close>, when the transaction fails. The code: when the write
  fails, \<open>cancel\<close> rolls back and raises the session kind, \<open>BatchSessionSaveException\<close>,
  where \<open>save\<close> on the same failure raises \<open>BatchProcessSaveException\<close>.
\<close>

theorem cancel_raises_session_kind:
  "write_fails e \<Longrightarrow>
     cancel e bid s = (Inl BatchSessionSaveException, s)
     \<and> save c e p s = (Inl BatchProcessSaveException, s)"
  by (simp add: cancel_def save_def)

theorem cancel_raises_session_kind_witness:
  "write_fails failing_env
   \<and> cancel failing_env ''B1'' store_B1 = (Inl BatchSessionSaveException, store_B1)
   \<and> save example_codec failing_env batch_B1 store_B1 = (Inl BatchProcessSaveException, store_B1)"
  using cancel_raises_session_kind [of failing_env "''B1''" store_B1 example_codec batch_B1]
  by (simp add: failing_env_def)

subsection \<open>Looking a session up by its session id\<close>


lemma get_session_errors: "get_session e sid s \<noteq> Inl BatchSessionSaveException"
  by (simp add: get_session_eq deserialize_session_row split: option.splits)

lemma find_None_iff_set: "find P xs = None \<longleftrightarrow> (\<forall>x\<in>set xs. \<not> P x)"
  by (induction xs) auto

lemma find_Some_set: "find P xs = Some x \<Longrightarrow> x \<in> set xs \<and> P x"
  by (induction xs) (auto split: if_splits)

lemma update_none: "\<forall>r\<in>set xs. \<not> P r \<Longrightarrow> map (\<lambda>r. if P r then f r else r) xs = xs"
  by (induction xs) auto

text \<open>
  C3, as the code has it. With a working engine \<open>delete(batch_id)\<close> succeeds and leaves
  no batch process with that id. When there was one, it leaves no session with that
  batch id either, and \<open>get_session\<close> then raises \<open>BatchSessionNotFoundException\<close> for
  the session id of every removed session whose id no session of another batch carries
  (\<open>get_session\<close> reads by session id alone, and the key of a session is the pair).
  When there was none, the store is unchanged.
\<close>

theorem delete_cascades:
  assumes "\<not> write_fails e"
  shows "fst (delete e bid s) = Inr ()
    \<and> bid \<notin> set (map pr_batch_id (batch_process (snd (delete e bid s))))
    \<and> (bid \<in> set (map pr_batch_id (batch_process s)) \<longrightarrow>
         bid \<notin> set (map sr_batch_id (batch_session (snd (delete e bid s))))
         \<and> (\<forall>r\<in>set (batch_session s).
              sr_batch_id r = bid
              \<and> (\<forall>q\<in>set (batch_session s). sr_session_id q = sr_session_id r \<longrightarrow> sr_batch_id q = bid)
              \<longrightarrow> get_session e' (sr_session_id r) (snd (delete e bid s))
                    = Inl BatchSessionNotFoundException))
    \<and> (bid \<notin> set (map pr_batch_id (batch_process s)) \<longrightarrow> snd (delete e bid s) = s)"
proof (intro conjI impI ballI)
  show "fst (delete e bid s) = Inr ()"
    using assms by (simp add: delete_eq)
  show "bid \<notin> set (map pr_batch_id (batch_process (snd (delete e bid s))))"
    using assms by (auto simp: delete_eq)
next
  assume "bid \<in> set (map pr_batch_id (batch_process s))"
  then show "bid \<notin> set (map sr_batch_id (batch_session (snd (delete e bid s))))"
    using assms by (auto simp: delete_eq)
next
  fix r
  assume there: "bid \<in> set (map pr_batch_id (batch_process s))"
    and r: "r \<in> set (batch_session s)"
    and own: "sr_batch_id r = bid
      \<and> (\<forall>q\<in>set (batch_session s). sr_session_id q = sr_session_id r \<longrightarrow> sr_batch_id q = bid)"
  have "\<forall>q\<in>set (batch_session (snd (delete e bid s))). sr_session_id q \<noteq> sr_session_id r"
    using assms there own by (auto simp: delete_eq)
  then have "find (\<lambda>q. sr_session_id q = sr_session_id r) (batch_session (snd (delete e bid s)))
               = None"
    by (simp add: find_None_iff_set)
  then show "get_session e' (sr_session_id r) (snd (delete e bid s))
               = Inl BatchSessionNotFoundException"
    by (simp add: get_session_eq)
next
  assume "bid \<notin> set (map pr_batch_id (batch_process s))"
  then have "filter (\<lambda>r. pr_batch_id r \<noteq> bid) (batch_process s) = batch_process s"
    by (auto simp: filter_id_conv)
  then show "snd (delete e bid s) = s"
    using assms \<open>bid \<notin> set (map pr_batch_id (batch_process s))\<close> by (simp add: delete_eq)
qed

text \<open>Deleting \<open>B1\<close> with its two sessions empties the store, and neither session id
  is found afterwards; deleting \<open>B9\<close>, which is not there, changes nothing.\<close>

theorem delete_cascades_witness:
  "\<not> write_fails example_env
   \<and> delete example_env ''B1'' store_B1_S1_S2 = (Inr (), empty_store)
   \<and> get_session example_env ''S1'' (snd (delete example_env ''B1'' store_B1_S1_S2))
       = Inl BatchSessionNotFoundException
   \<and> get_session example_env ''S2'' (snd (delete example_env ''B1'' store_B1_S1_S2))
       = Inl BatchSessionNotFoundException
   \<and> delete example_env ''B9'' store_B1_S1_S2 = (Inr (), store_B1_S1_S2)"
proof -
  have a: "delete example_env ''B1'' store_B1_S1_S2 = (Inr (), empty_store)"
    by (simp add: delete_eq store_B1_S1_S2_value empty_store_def)
  have b: "delete example_env ''B9'' store_B1_S1_S2 = (Inr (), store_B1_S1_S2)"
    by (simp add: delete_eq store_B1_S1_S2_value)
  show ?thesis
    using delete_cascades [of example_env "''B1''" store_B1_S1_S2 example_env] a b
    by (simp add: store_B1_S1_S2_value)
qed

text \<open>The claim as stated fails: \<open>B1\<close> and \<open>B2\<close> each have a session \<open>S1\<close>; after
  \<open>delete(B1)\<close>, \<open>get_session(S1)\<close> does not raise, it returns the session of \<open>B2\<close>.\<close>

theorem delete_cascades_counterexample:
  "(''B1'', ''S1'') \<in> set (map session_key (batch_session store_shared_S1))
   \<and> fst (delete example_env ''B1'' store_shared_S1) = Inr ()
   \<and> get_session example_env ''S1'' (snd (delete example_env ''B1'' store_shared_S1))
       = Inr \<lparr>sess_batch_id = ''B2'', session_id = ''S1'', state = Created\<rparr>"
  by (simp add: delete_eq get_session_eq store_shared_S1_value session_key_def
      deserialize_session_row)

subsection \<open>Updating the state of a session\<close>

lemma find_updated:
  assumes "\<And>r. Q (f r) = Q r"
  shows "find Q (map (\<lambda>r. if P r then f r else r) xs)
           = map_option (\<lambda>r. if P r then f r else r) (find Q xs)"
  using assms by (induction xs) auto




text \<open>
  C10, as the code has it. Let no session have the pair \<open>(batch_id, session_id)\<close> and
  let the write not fail. Then \<open>update_session_state\<close> leaves the store unchanged and
  ends as \<open>get_session(session_id)\<close> does on that store, which is never with
  \<open>BatchSessionSaveException\<close>: it raises \<open>BatchSessionNotFoundException\<close> when no
  session at all has the session id, and otherwise reads the session of another batch
  that has it.
\<close>

theorem update_of_missing_pair:
  assumes "(bid, sid) \<notin> set (map session_key (batch_session s))"
    and "\<not> write_fails e"
  shows "snd (update_session_state e bid sid ch s) = s
       \<and> fst (update_session_state e bid sid ch s) = get_session e sid s
       \<and> fst (update_session_state e bid sid ch s) \<noteq> Inl BatchSessionSaveException
       \<and> (sid \<notin> set (map sr_session_id (batch_session s)) \<longrightarrow>
            fst (update_session_state e bid sid ch s) = Inl BatchSessionNotFoundException)"
proof -
  have "\<forall>r\<in>set (batch_session s). \<not> (sr_batch_id r = bid \<and> sr_session_id r = sid)"
    using assms(1) by (force simp: session_key_def)
  then have same: "map (\<lambda>r. if sr_batch_id r = bid \<and> sr_session_id r = sid
                              then r\<lparr>sr_state := state_text st, sr_updated_at := strftime_now e\<rparr>
                              else r) (batch_session s) = batch_session s" for st
    by (rule update_none)
  have call: "update_session_state e bid sid ch s = (get_session e sid s, s)"
  proof (cases ch)
    case (fields st)
    then show ?thesis
    proof (cases st)
      case None
      with fields show ?thesis by (simp add: update_session_state_def)
    next
      case (Some st')
      with fields assms(2) show ?thesis by (simp add: update_session_state_eq same)
    qed
  qed
  have "find (\<lambda>r. sr_session_id r = sid) (batch_session s) = None"
    if "sid \<notin> set (map sr_session_id (batch_session s))"
    using that by (auto simp: find_None_iff_set)
  then show ?thesis
    by (simp add: call get_session_errors) (simp add: get_session_eq)
qed

theorem update_of_missing_pair_witness:
  "(''B1'', ''S7'') \<notin> set (map session_key (batch_session store_B1_S1_S2))
   \<and> \<not> write_fails example_env
   \<and> update_session_state example_env ''B1'' ''S7'' \<lparr>ch_state = Some Completed\<rparr> store_B1_S1_S2
       = (Inl BatchSessionNotFoundException, store_B1_S1_S2)"
proof -
  have a: "(''B1'', ''S7'') \<notin> set (map session_key (batch_session store_B1_S1_S2))"
    by (simp add: store_B1_S1_S2_value session_key_def)
  have b: "\<not> write_fails example_env"
    by simp
  have c: "sid \<notin> set (map sr_session_id (batch_session store_B1_S1_S2))" if "sid = ''S7''" for sid
    using that by (simp add: store_B1_S1_S2_value)
  note u = update_of_missing_pair [OF a b, of "\<lparr>ch_state = Some Completed\<rparr>"]
  have "snd (update_session_state example_env ''B1'' ''S7'' \<lparr>ch_state = Some Completed\<rparr>
          store_B1_S1_S2) = store_B1_S1_S2"
    using u by blast
  moreover have "fst (update_session_state example_env ''B1'' ''S7''
          \<lparr>ch_state = Some Completed\<rparr> store_B1_S1_S2) = Inl BatchSessionNotFoundException"
    using u c by blast
  ultimately show ?thesis
    using a b by (simp add: prod_eq_iff)
qed

text \<open>The claim as stated fails: no session has the pair \<open>(B1, S1)\<close>, but \<open>B2\<close> has a
  session \<open>S1\<close>; \<open>update_session_state(B1, S1, _)\<close> does not raise, it returns the session
  of \<open>B2\<close>.\<close>

theorem update_of_missing_pair_counterexample:
  "(''B1'', ''S1'') \<notin> set (map session_key (batch_session store_B2_S1))
   \<and> update_session_state example_env ''B1'' ''S1'' \<lparr>ch_state = Some Completed\<rparr> store_B2_S1
       = (Inr \<lparr>sess_batch_id = ''B2'', session_id = ''S1'', state = Created\<rparr>, store_B2_S1)"
  by (simp add: update_session_state_eq get_session_eq store_B2_S1_value session_key_def
      deserialize_session_row)

subsection \<open>Rows with a missing field\<close>

text \<open>
  C8. The claim: a field missing from a row is replaced by a sentinel (\<open>"unknown"\<close>,
  or \<open>0\<close> for \<open>canceled\<close>) and deserialisation does not fail on its account, for batch
  processes and sessions alike. The code: the sentinel is put in, and then refused. A
  dictionary without \<open>state\<close> gets \<open>"unknown"\<close>, which is none of the four states of
  \<open>BatchSession\<close>, so the constructor raises; a dictionary without \<open>batches\<close> gets
  \<open>"unknown"\<close>, and \<open>json.loads\<close> raises on it when, like Python's, it refuses that
  text.
\<close>

theorem missing_field_raises:
  "(d ''state'' = None \<longrightarrow> deserialize_batch_session d = Inl ValidationError)
   \<and> (d' ''batches'' = None \<and> json_loads c (SText ''unknown'') = None \<longrightarrow>
        deserialize_batch_process c d' = Inl DecodeError)"
  by (simp add: deserialize_batch_session_def deserialize_batch_process_def dict_get_def
      split: option.splits)

text \<open>A session row without its state, and a batch process row without its batches. A
  missing \<open>session_id\<close>, in contrast, does become \<open>"unknown"\<close>.\<close>

theorem missing_field_raises_witness:
  "deserialize_batch_session (map_of [(''batch_id'', SText ''B1''), (''session_id'', SText ''S1'')])
     = Inl ValidationError
   \<and> deserialize_batch_process example_codec
       (map_of [(''batch_id'', SText ''B1''), (''graph'', SText ''G1''), (''canceled'', SInt 0)])
     = Inl DecodeError
   \<and> deserialize_batch_session (map_of [(''batch_id'', SText ''B1''), (''state'', SText ''created'')])
     = Inr \<lparr>sess_batch_id = ''B1'', session_id = ''unknown'', state = Created\<rparr>"
proof -
  have "deserialize_batch_session (map_of [(''batch_id'', SText ''B1''), (''state'', SText ''created'')])
          = Inr \<lparr>sess_batch_id = ''B1'', session_id = ''unknown'', state = Created\<rparr>"
    by (simp add: deserialize_batch_session_def dict_get_def)
  moreover have "json_loads example_codec (SText ''unknown'') = None"
    by (simp add: example_codec_def)
  ultimately show ?thesis
    using missing_field_raises
      [of "map_of [(''batch_id'', SText ''B1''), (''session_id'', SText ''S1'')]"
          "map_of [(''batch_id'', SText ''B1''), (''graph'', SText ''G1''), (''canceled'', SInt 0)]"
          example_codec]
    by simp
qed

subsection \<open>The canceled flag over time\<close>

lemma find_snoc:
  "find P (xs @ [y]) = (case find P xs of None \<Rightarrow> (if P y then Some y else None) | Some x \<Rightarrow> Some x)"
  by (induction xs) auto

lemma find_filter_keep: "(\<And>x. P x \<Longrightarrow> Q x) \<Longrightarrow> find P (filter Q xs) = find P xs"
  by (induction xs) auto

lemma create_session_processes:
  "batch_process (snd (create_session e x s)) = batch_process s"
  by (simp add: create_session_store insert_or_ignore_batch_session_def split: option.splits)

lemma update_session_state_processes:
  "batch_process (snd (update_session_state e bid sid ch s)) = batch_process s"
  by (simp add: update_session_state_def sql_update_def prepare_session_key Let_def
      split: option.splits)

text \<open>The first row with a given batch id, which is the one \<open>get\<close> reads, stays the
  first under every call but a \<open>delete\<close> of that id; its payload stays and its flag,
  once set, stays set.\<close>

lemma first_row_kept:
  assumes "x \<noteq> Delete bid"
    and "find (\<lambda>r. pr_batch_id r = bid) (batch_process s) = Some r"
  shows "\<exists>r'. find (\<lambda>r. pr_batch_id r = bid) (batch_process (apply_operation c e x s)) = Some r'
           \<and> pr_batches r' = pr_batches r \<and> pr_graph r' = pr_graph r
           \<and> (pr_canceled r = 1 \<longrightarrow> pr_canceled r' = 1)"
proof (cases x)
  case (Delete b)
  with assms(1) have "b \<noteq> bid" by simp
  then have "find (\<lambda>r. pr_batch_id r = bid) (filter (\<lambda>r. pr_batch_id r \<noteq> b) (batch_process s))
               = find (\<lambda>r. pr_batch_id r = bid) (batch_process s)"
    by (intro find_filter_keep) simp
  with Delete assms(2) show ?thesis by (simp add: delete_eq)
next
  case (Save p)
  with assms(2) show ?thesis
    by (simp add: save_store insert_or_ignore_batch_process_def find_snoc split: option.splits)
next
  case (Cancel b)
  have "find (\<lambda>r. pr_batch_id r = bid)
          (map (\<lambda>r. if pr_batch_id r = b
                    then r\<lparr>pr_canceled := 1, pr_updated_at := current_timestamp e\<rparr> else r)
             (batch_process s))
        = Some (if pr_batch_id r = b
                then r\<lparr>pr_canceled := 1, pr_updated_at := current_timestamp e\<rparr> else r)"
    using assms(2) by (simp add: find_updated)
  with Cancel assms(2) show ?thesis by (simp add: cancel_eq)
next
  case (CreateSession y)
  with assms(2) show ?thesis by (simp add: create_session_processes)
next
  case (UpdateSessionState b i ch)
  with assms(2) show ?thesis by (simp add: update_session_state_processes)
qed (use assms(2) in simp_all)

lemma first_row_kept_run:
  assumes "Delete bid \<notin> set (map snd ops)"
    and "find (\<lambda>r. pr_batch_id r = bid) (batch_process s) = Some r"
    and "pr_canceled r = 1"
  shows "\<exists>r'. find (\<lambda>r. pr_batch_id r = bid) (batch_process (run c ops s)) = Some r'
           \<and> pr_batches r' = pr_batches r \<and> pr_graph r' = pr_graph r \<and> pr_canceled r' = 1"
  using assms
proof (induction ops arbitrary: s r)
  case Nil
  then show ?case by simp
next
  case (Cons a ops)
  obtain e x where a: "a = (e, x)" by (cases a)
  with Cons.prems(1) have x: "x \<noteq> Delete bid" and rest: "Delete bid \<notin> set (map snd ops)"
    by auto
  from first_row_kept [OF x Cons.prems(2), of c e] Cons.prems(3)
  obtain r' where r': "find (\<lambda>r. pr_batch_id r = bid) (batch_process (apply_operation c e x s)) = Some r'"
    "pr_batches r' = pr_batches r" "pr_graph r' = pr_graph r" "pr_canceled r' = 1"
    by auto
  from Cons.IH [OF rest r'(1) r'(4)] r'(2,3) a show ?case by simp
qed

text \<open>
  C6, as the code has it. Let \<open>get(batch_id)\<close> return \<open>p\<close>, let \<open>cancel(batch_id)\<close>
  succeed, and let any sequence of calls follow in which \<open>delete(batch_id)\<close> does not
  occur: calls of \<open>cancel\<close> and \<open>save\<close> for the same id, calls for other ids, session
  calls, each failing or not. Then a \<open>get(batch_id)\<close> on a working engine returns \<open>p\<close>
  with \<open>canceled\<close> true.
\<close>

theorem cancellation_is_monotonic:
  assumes "get c e0 (Some bid) s = Inr p"
    and "\<not> write_fails e1"
    and "Delete bid \<notin> set (map snd ops)"
    and "\<not> read_fails e2"
  shows "fst (cancel e1 bid s) = Inr ()
       \<and> get c e2 (Some bid) (run c ops (snd (cancel e1 bid s))) = Inr (p\<lparr>canceled := True\<rparr>)"
proof -
  from assms(1) obtain r where r: "find (\<lambda>r. pr_batch_id r = bid) (batch_process s) = Some r"
    and p: "deserialize_batch_process c (process_row_dict r) = Inr p"
    by (auto simp: get_eq split: if_splits option.splits)
  let ?r1 = "r\<lparr>pr_canceled := 1, pr_updated_at := current_timestamp e1\<rparr>"
  have id_r: "pr_batch_id r = bid"
    using find_Some_set [OF r] by simp
  have "find (\<lambda>r. pr_batch_id r = bid) (batch_process (snd (cancel e1 bid s))) = Some ?r1"
    using assms(2) r id_r by (simp add: cancel_eq find_updated)
  from first_row_kept_run [OF assms(3) this, of c]
  obtain r' where r': "find (\<lambda>r. pr_batch_id r = bid)
        (batch_process (run c ops (snd (cancel e1 bid s)))) = Some r'"
    "pr_batches r' = pr_batches r" "pr_graph r' = pr_graph r" "pr_canceled r' = 1"
    by auto
  have id_r': "pr_batch_id r' = bid"
    using find_Some_set [OF r'(1)] by simp
  have "deserialize_batch_process c (process_row_dict r') = Inr (p\<lparr>canceled := True\<rparr>)"
    using p r'(2-4) id_r id_r'
    by (auto simp: deserialize_process_row split: option.splits)
  with r'(1) assms(2,4) show ?thesis
    by (simp add: get_eq cancel_eq)
qed

text \<open>After \<open>cancel(B1)\<close>: a second \<open>cancel(B1)\<close>, a \<open>save\<close> of \<open>B1\<close> again, a
  \<open>delete\<close> of another batch and a failed \<open>cancel\<close> leave \<open>B1\<close> canceled.\<close>

theorem cancellation_is_monotonic_witness:
  "get example_codec example_env (Some ''B1'') store_B1_B2 = Inr batch_B1
   \<and> get example_codec example_env (Some ''B1'')
       (run example_codec
          [(example_env, Cancel ''B1''), (example_env, Save batch_B1),
           (example_env, Delete ''B2''), (failing_env, Cancel ''B1'')]
          (snd (cancel example_env ''B1'' store_B1_B2)))
     = Inr (batch_B1\<lparr>canceled := True\<rparr>)"
proof -
  have g: "get example_codec example_env (Some ''B1'') store_B1_B2 = Inr batch_B1"
    by (simp add: get_eq store_B1_B2_value deserialize_process_row example_codec_def batch_B1_def)
  show ?thesis
    using cancellation_is_monotonic [OF g, of example_env
        "[(example_env, Cancel ''B1''), (example_env, Save batch_B1),
          (example_env, Delete ''B2''), (failing_env, Cancel ''B1'')]" example_env] g
    by simp
qed

text \<open>The claim as stated fails: after \<open>cancel(B1)\<close>, a \<open>delete(B1)\<close> followed by a
  \<open>save\<close> of a batch process with the id \<open>B1\<close> leaves a row that is not canceled.\<close>

theorem cancellation_is_monotonic_counterexample:
  "fst (cancel example_env ''B1'' store_B1) = Inr ()
   \<and> get example_codec example_env (Some ''B1'') (snd (cancel example_env ''B1'' store_B1))
       = Inr \<lparr>batch_id = Some ''B1'', batches = [''n1'', ''n2''], canceled = True, graph = ''G1''\<rparr>
   \<and> get example_codec example_env (Some ''B1'')
       (run example_codec [(example_env, Delete ''B1''), (example_env, Save batch_B1)]
          (snd (cancel example_env ''B1'' store_B1)))
       = Inr \<lparr>batch_id = Some ''B1'', batches = [''n1'', ''n2''], canceled = False, graph = ''G1''\<rparr>"
  by (simp add: cancel_eq delete_eq save_store insert_or_ignore_batch_process_def get_eq
      store_B1_value deserialize_process_row example_codec_def batch_B1_def)

subsection \<open>What a call may change in a row\<close>

lemma same_key_same_row:
  "distinct (map k xs) \<Longrightarrow> x \<in> set xs \<Longrightarrow> y \<in> set xs \<Longrightarrow> k x = k y \<Longrightarrow> x = y"
  by (auto simp: distinct_map dest: inj_onD)

lemma create_session_sessions:
  "batch_session (snd (create_session e x s)) = batch_session s
   \<or> (session_key y \<notin> set (map session_key (batch_session s))
       \<and> batch_session (snd (create_session e x s)) = batch_session s @ [y])" 
  if "y = \<lparr>sr_batch_id = sess_batch_id x, sr_session_id = session_id x,
             sr_state = state_text (state x), sr_created_at = strftime_now e,
             sr_updated_at = strftime_now e, sr_deleted_at = None\<rparr>"
  using that
  by (auto simp: create_session_store insert_or_ignore_batch_session_def session_key_def)

lemma save_processes:
  "batch_process (snd (save c e p s)) = batch_process s
   \<or> (\<exists>y. pr_batch_id y \<notin> set (map pr_batch_id (batch_process s))
          \<and> batch_process (snd (save c e p s)) = batch_process s @ [y])"
  by (auto simp: save_store insert_or_ignore_batch_process_def split: option.splits)

lemma save_sessions: "batch_session (snd (save c e p s)) = batch_session s"
  by (simp add: save_store insert_or_ignore_batch_process_def split: option.splits)

lemma cancel_sessions: "batch_session (snd (cancel e bid s)) = batch_session s"
  by (simp add: cancel_eq)

lemma update_session_state_sessions:
  "batch_session (snd (update_session_state e bid sid ch s)) = batch_session s
   \<or> (\<exists>st. batch_session (snd (update_session_state e bid sid ch s)) =
         map (\<lambda>r. if sr_batch_id r = bid \<and> sr_session_id r = sid
                   then r\<lparr>sr_state := st, sr_updated_at := strftime_now e\<rparr> else r)
           (batch_session s))"
proof (cases ch)
  case (fields st)
  then show ?thesis
    by (cases st) (auto simp: update_session_state_eq, simp add: update_session_state_def)
qed


lemma in_updated:
  "r' \<in> set (map (\<lambda>r. if P r then f r else r) xs) \<Longrightarrow> \<exists>r0\<in>set xs. r' = r0 \<or> r' = f r0"
  by auto

lemma update_session_state_row:
  assumes "r' \<in> set (batch_session (snd (update_session_state e bid sid ch s)))"
  shows "\<exists>st. \<exists>r0\<in>set (batch_session s).
           r' = r0 \<or> r' = r0\<lparr>sr_state := st, sr_updated_at := strftime_now e\<rparr>"
proof -
  from update_session_state_sessions [of e bid sid ch s] show ?thesis
  proof
    assume "batch_session (snd (update_session_state e bid sid ch s)) = batch_session s"
    with assms show ?thesis by auto
  next
    assume "\<exists>st. batch_session (snd (update_session_state e bid sid ch s)) =
         map (\<lambda>r. if sr_batch_id r = bid \<and> sr_session_id r = sid
                   then r\<lparr>sr_state := st, sr_updated_at := strftime_now e\<rparr> else r)
           (batch_session s)"
    then obtain st where "batch_session (snd (update_session_state e bid sid ch s)) =
         map (\<lambda>r. if sr_batch_id r = bid \<and> sr_session_id r = sid
                   then r\<lparr>sr_state := st, sr_updated_at := strftime_now e\<rparr> else r)
           (batch_session s)" ..
    with assms in_updated
      [of r' "\<lambda>r. sr_batch_id r = bid \<and> sr_session_id r = sid"
          "\<lambda>r. r\<lparr>sr_state := st, sr_updated_at := strftime_now e\<rparr>" "batch_session s"]
    show ?thesis by auto
  qed
qed

lemma delete_processes:
  "set (batch_process (snd (delete e bid s))) \<subseteq> set (batch_process s)"
  by (auto simp: delete_eq)

lemma delete_sessions:
  "set (batch_session (snd (delete e bid s))) \<subseteq> set (batch_session s)"
  by (auto simp: delete_eq)

lemma process_frame:
  assumes "distinct (map pr_batch_id (batch_process s))"
    and "r \<in> set (batch_process s)"
    and "r' \<in> set (batch_process (apply_operation c e x s))"
    and "pr_batch_id r' = pr_batch_id r"
  shows "pr_batches r' = pr_batches r \<and> pr_graph r' = pr_graph r
       \<and> pr_created_at r' = pr_created_at r \<and> pr_deleted_at r' = pr_deleted_at r
       \<and> ((\<forall>b. x \<noteq> Cancel b) \<longrightarrow> r' = r)"
proof -
  have old: "r' = r" if "r' \<in> set (batch_process s)"
    using same_key_same_row [OF assms(1) that assms(2) assms(4)] .
  show ?thesis
  proof (cases x)
    case (Delete b)
    with assms(3) delete_processes [of e b s] have "r' \<in> set (batch_process s)" by auto
    from old [OF this] show ?thesis by simp
  next
    case (Save p)
    from save_processes [of c e p s] Save assms(2-4) have "r' \<in> set (batch_process s)"
      by (auto simp: image_iff)
    from old [OF this] show ?thesis by simp
  next
    case (Cancel b)
    let ?g = "\<lambda>r. if pr_batch_id r = b
                   then r\<lparr>pr_canceled := 1, pr_updated_at := current_timestamp e\<rparr> else r"
    from Cancel assms(3) have "r' \<in> set (batch_process s) \<or> r' \<in> ?g ` set (batch_process s)"
      by (auto simp: cancel_eq split: if_splits)
    then obtain r0 where r0: "r0 \<in> set (batch_process s)" "r' = r0 \<or> r' = ?g r0"
      by auto
    then have "pr_batch_id r0 = pr_batch_id r"
      using assms(4) by (auto split: if_splits)
    from same_key_same_row [OF assms(1) r0(1) assms(2) this] r0(2) Cancel show ?thesis
      by (auto split: if_splits)
  next
    case (CreateSession y)
    with assms(3) have "r' \<in> set (batch_process s)" by (simp add: create_session_processes)
    from old [OF this] show ?thesis by simp
  next
    case (UpdateSessionState b i ch)
    with assms(3) have "r' \<in> set (batch_process s)"
      by (simp add: update_session_state_processes)
    from old [OF this] show ?thesis by simp
  qed (use assms(3) old in auto)
qed

lemma session_frame:
  assumes "distinct (map session_key (batch_session s))"
    and "r \<in> set (batch_session s)"
    and "r' \<in> set (batch_session (apply_operation c e x s))"
    and "session_key r' = session_key r"
  shows "sr_created_at r' = sr_created_at r \<and> sr_deleted_at r' = sr_deleted_at r
       \<and> ((\<forall>b i ch. x \<noteq> UpdateSessionState b i ch) \<longrightarrow> r' = r)"
proof -
  have old: "r' = r" if "r' \<in> set (batch_session s)"
    using same_key_same_row [OF assms(1) that assms(2) assms(4)] .
  show ?thesis
  proof (cases x)
    case (Delete b)
    with assms(3) delete_sessions [of e b s] have "r' \<in> set (batch_session s)" by auto
    from old [OF this] show ?thesis by simp
  next
    case (Save p)
    with assms(3) have "r' \<in> set (batch_session s)" by (simp add: save_sessions)
    from old [OF this] show ?thesis by simp
  next
    case (Cancel b)
    with assms(3) have "r' \<in> set (batch_session s)" by (simp add: cancel_sessions)
    from old [OF this] show ?thesis by simp
  next
    case (CreateSession y)
    from create_session_sessions [OF refl, of e y s] CreateSession assms(2-4)
    have "r' \<in> set (batch_session s)"
      by (auto simp: image_iff)
    from old [OF this] show ?thesis by simp
  next
    case (UpdateSessionState b i ch)
    from update_session_state_row [of r' e b i ch s] UpdateSessionState assms(3)
    obtain st r0 where r0: "r0 \<in> set (batch_session s)"
      "r' = r0 \<or> r' = r0\<lparr>sr_state := st, sr_updated_at := strftime_now e\<rparr>"
      by auto
    then have "session_key r0 = session_key r"
      using assms(4) by (auto simp: session_key_def)
    from same_key_same_row [OF assms(1) r0(1) assms(2) this] r0(2) UpdateSessionState
    show ?thesis by auto
  qed (use assms(3) old in auto)
qed


text \<open>The primary keys hold in the empty store and after every call, so in every store
  the storage reaches.\<close>

lemma primary_keys_empty: "primary_keys empty_store"
  by (simp add: primary_keys_def empty_store_def)

lemma keys_of_updated: "(\<And>r. k (f r) = k r) \<Longrightarrow> map k (map (\<lambda>r. if P r then f r else r) xs) = map k xs"
  by (induction xs) auto

lemma primary_keys_apply_operation:
  assumes "primary_keys s"
  shows "primary_keys (apply_operation c e x s)"
proof (cases x)
  case (Delete b)
  with assms show ?thesis
    by (simp add: primary_keys_def delete_eq distinct_map_filter)
next
  case (Save p)
  from save_processes [of c e p s] assms Save show ?thesis
    by (auto simp: primary_keys_def save_sessions)
next
  case (Cancel b)
  have "map pr_batch_id (batch_process (snd (cancel e b s))) = map pr_batch_id (batch_process s)"
    by (simp add: cancel_eq keys_of_updated)
  with assms Cancel show ?thesis
    by (simp add: primary_keys_def cancel_sessions)
next
  case (CreateSession y)
  from create_session_sessions [OF refl, of e y s] assms CreateSession show ?thesis
    by (auto simp: primary_keys_def create_session_processes)
next
  case (UpdateSessionState b i ch)
  have "map session_key (batch_session (snd (update_session_state e b i ch s)))
          = map session_key (batch_session s)"
    using update_session_state_sessions [of e b i ch s]
    by (auto simp: keys_of_updated session_key_def)
  with assms UpdateSessionState show ?thesis
    by (simp add: primary_keys_def update_session_state_processes)
qed (use assms in simp_all)

lemma primary_keys_run: "primary_keys s \<Longrightarrow> primary_keys (run c ops s)"
  by (induction ops arbitrary: s) (auto simp: primary_keys_apply_operation)

text \<open>
  C9. In a store that respects the primary keys, let a row be there before a call and a
  row with the same key after it. For every call, the batch process row has the same
  batches, graph, \<open>created_at\<close> and \<open>deleted_at\<close> as before, and is the same row
  altogether unless the call is a \<open>cancel\<close>; the session row has the same \<open>created_at\<close>
  and \<open>deleted_at\<close> as before, and is the same row altogether unless the call is an
  \<open>update_session_state\<close>. A \<open>cancel\<close> leaves the sessions as they are and changes, row
  by row, at most \<open>canceled\<close> and \<open>updated_at\<close>, and nothing in a row with another batch
  id. An \<open>update_session_state\<close> leaves the batch processes as they are and changes, row
  by row, at most \<open>state\<close> and \<open>updated_at\<close>, and nothing in a row with another key.
\<close>

theorem only_canceled_and_state_change:
  assumes "primary_keys s"
  shows "(\<forall>r\<in>set (batch_process s). \<forall>r'\<in>set (batch_process (apply_operation c e x s)).
            pr_batch_id r' = pr_batch_id r \<longrightarrow>
              pr_batches r' = pr_batches r \<and> pr_graph r' = pr_graph r
              \<and> pr_created_at r' = pr_created_at r \<and> pr_deleted_at r' = pr_deleted_at r
              \<and> ((\<forall>b. x \<noteq> Cancel b) \<longrightarrow> r' = r))
       \<and> (\<forall>r\<in>set (batch_session s). \<forall>r'\<in>set (batch_session (apply_operation c e x s)).
            session_key r' = session_key r \<longrightarrow>
              sr_created_at r' = sr_created_at r \<and> sr_deleted_at r' = sr_deleted_at r
              \<and> ((\<forall>b i ch. x \<noteq> UpdateSessionState b i ch) \<longrightarrow> r' = r))
       \<and> batch_session (snd (cancel e1 bid s)) = batch_session s
       \<and> list_all2
            (\<lambda>r r'. r' = r\<lparr>pr_canceled := pr_canceled r', pr_updated_at := pr_updated_at r'\<rparr>
                     \<and> (pr_batch_id r \<noteq> bid \<longrightarrow> r' = r))
            (batch_process s) (batch_process (snd (cancel e1 bid s)))
       \<and> batch_process (snd (update_session_state e2 bid2 sid ch s)) = batch_process s
       \<and> list_all2
            (\<lambda>r r'. r' = r\<lparr>sr_state := sr_state r', sr_updated_at := sr_updated_at r'\<rparr>
                     \<and> (session_key r \<noteq> (bid2, sid) \<longrightarrow> r' = r))
            (batch_session s) (batch_session (snd (update_session_state e2 bid2 sid ch s)))"
proof (intro conjI ballI impI)
  fix r r'
  assume "r \<in> set (batch_process s)" "r' \<in> set (batch_process (apply_operation c e x s))"
    "pr_batch_id r' = pr_batch_id r"
  with assms have f: "pr_batches r' = pr_batches r \<and> pr_graph r' = pr_graph r
       \<and> pr_created_at r' = pr_created_at r \<and> pr_deleted_at r' = pr_deleted_at r
       \<and> ((\<forall>b. x \<noteq> Cancel b) \<longrightarrow> r' = r)"
    by (intro process_frame) (simp_all add: primary_keys_def)
  from f show "pr_batches r' = pr_batches r" by simp
  from f show "pr_graph r' = pr_graph r" by simp
  from f show "pr_created_at r' = pr_created_at r" by simp
  from f show "pr_deleted_at r' = pr_deleted_at r" by simp
  assume "\<forall>b. x \<noteq> Cancel b"
  with f show "r' = r" by simp
next
  fix r r'
  assume "r \<in> set (batch_session s)" "r' \<in> set (batch_session (apply_operation c e x s))"
    "session_key r' = session_key r"
  with assms have f: "sr_created_at r' = sr_created_at r \<and> sr_deleted_at r' = sr_deleted_at r
       \<and> ((\<forall>b i ch. x \<noteq> UpdateSessionState b i ch) \<longrightarrow> r' = r)"
    by (intro session_frame) (simp_all add: primary_keys_def)
  from f show "sr_created_at r' = sr_created_at r" by simp
  from f show "sr_deleted_at r' = sr_deleted_at r" by simp
  assume "\<forall>b i ch. x \<noteq> UpdateSessionState b i ch"
  with f show "r' = r" by simp
next
  show "batch_session (snd (cancel e1 bid s)) = batch_session s"
    by (rule cancel_sessions)
  show "list_all2
          (\<lambda>r r'. r' = r\<lparr>pr_canceled := pr_canceled r', pr_updated_at := pr_updated_at r'\<rparr>
                   \<and> (pr_batch_id r \<noteq> bid \<longrightarrow> r' = r))
          (batch_process s) (batch_process (snd (cancel e1 bid s)))"
    by (simp add: cancel_eq list_all2_map2 list_all2_same)
  show "batch_process (snd (update_session_state e2 bid2 sid ch s)) = batch_process s"
    by (rule update_session_state_processes)
  from update_session_state_sessions [of e2 bid2 sid ch s]
  show "list_all2
          (\<lambda>r r'. r' = r\<lparr>sr_state := sr_state r', sr_updated_at := sr_updated_at r'\<rparr>
                   \<and> (session_key r \<noteq> (bid2, sid) \<longrightarrow> r' = r))
          (batch_session s) (batch_session (snd (update_session_state e2 bid2 sid ch s)))"
    by (auto simp: list_all2_map2 list_all2_same session_key_def)
qed


text \<open>In the store with two batches and a session \<open>S1\<close> under each: \<open>cancel(B1)\<close>
  rewrites \<open>canceled\<close> and \<open>updated_at\<close> of the first batch process only, and
  \<open>update_session_state(B2, S1, completed)\<close> the state of the second session only.\<close>

theorem only_canceled_and_state_change_witness:
  "primary_keys store_shared_S1
   \<and> batch_process (apply_operation example_codec example_env (Cancel ''B1'') store_shared_S1)
       = [\<lparr>pr_batch_id = ''B1'', pr_batches = ''n1;n2;'', pr_graph = ''G1'', pr_canceled = 1,
            pr_created_at = ''2023-08-01 10:00:00.000'', pr_updated_at = ''2023-08-01 10:00:00'',
            pr_deleted_at = None\<rparr>,
          \<lparr>pr_batch_id = ''B2'', pr_batches = ''n3;'', pr_graph = ''G2'', pr_canceled = 0,
            pr_created_at = ''2023-08-01 10:00:00.000'', pr_updated_at = ''2023-08-01 10:00:00.000'',
            pr_deleted_at = None\<rparr>]
   \<and> batch_session (snd (cancel example_env ''B1'' store_shared_S1))
       = batch_session store_shared_S1
   \<and> batch_process (snd (update_session_state example_env ''B2'' ''S1''
                           \<lparr>ch_state = Some Completed\<rparr> store_shared_S1))
       = batch_process store_shared_S1
   \<and> batch_session (snd (update_session_state example_env ''B2'' ''S1''
                           \<lparr>ch_state = Some Completed\<rparr> store_shared_S1))
       = [\<lparr>sr_batch_id = ''B1'', sr_session_id = ''S1'', sr_state = ''created'',
            sr_created_at = ''2023-08-01 10:00:00.000'', sr_updated_at = ''2023-08-01 10:00:00.000'',
            sr_deleted_at = None\<rparr>,
          \<lparr>sr_batch_id = ''B2'', sr_session_id = ''S1'', sr_state = ''completed'',
            sr_created_at = ''2023-08-01 10:00:00.000'', sr_updated_at = ''2023-08-01 10:00:00.000'',
            sr_deleted_at = None\<rparr>]"
proof -
  have k: "primary_keys store_shared_S1"
    by (simp add: primary_keys_def store_shared_S1_value session_key_def)
  have c: "batch_process (snd (cancel example_env ''B1'' store_shared_S1))
       = [\<lparr>pr_batch_id = ''B1'', pr_batches = ''n1;n2;'', pr_graph = ''G1'', pr_canceled = 1,
            pr_created_at = ''2023-08-01 10:00:00.000'', pr_updated_at = ''2023-08-01 10:00:00'',
            pr_deleted_at = None\<rparr>,
          \<lparr>pr_batch_id = ''B2'', pr_batches = ''n3;'', pr_graph = ''G2'', pr_canceled = 0,
            pr_created_at = ''2023-08-01 10:00:00.000'', pr_updated_at = ''2023-08-01 10:00:00.000'',
            pr_deleted_at = None\<rparr>]"
    by (simp add: cancel_eq store_shared_S1_value)
  have u: "batch_session (snd (update_session_state example_env ''B2'' ''S1''
                           \<lparr>ch_state = Some Completed\<rparr> store_shared_S1))
       = [\<lparr>sr_batch_id = ''B1'', sr_session_id = ''S1'', sr_state = ''created'',
            sr_created_at = ''2023-08-01 10:00:00.000'', sr_updated_at = ''2023-08-01 10:00:00.000'',
            sr_deleted_at = None\<rparr>,
          \<lparr>sr_batch_id = ''B2'', sr_session_id = ''S1'', sr_state = ''completed'',
            sr_created_at = ''2023-08-01 10:00:00.000'', sr_updated_at = ''2023-08-01 10:00:00.000'',
            sr_deleted_at = None\<rparr>]"
    by (simp add: update_session_state_eq store_shared_S1_value)
  from only_canceled_and_state_change [OF k, of example_codec example_env "Cancel ''B1''"
      example_env "''B1''" example_env "''B2''" "''S1''" "\<lparr>ch_state = Some Completed\<rparr>"]
  have "batch_session (snd (cancel example_env ''B1'' store_shared_S1))
          = batch_session store_shared_S1
      \<and> batch_process (snd (update_session_state example_env ''B2'' ''S1''
                           \<lparr>ch_state = Some Completed\<rparr> store_shared_S1))
          = batch_process store_shared_S1"
    by blast
  with k c u show ?thesis
    by simp
qed

subsection \<open>Two remarks\<close>

text \<open>A batch process whose \<open>batch_id\<close> is \<open>None\<close> is not stored: the insert is
  skipped, and the trailing \<open>get\<close> finds nothing.\<close>

lemma save_without_batch_id:
  "batch_id p = None \<Longrightarrow>
     save c e p s =
       (if write_fails e then (Inl BatchProcessSaveException, s)
        else (Inl BatchProcessNotFoundException, s))"
  by (simp add: save_def Let_def insert_or_ignore_batch_process_def get_None)

text \<open>Without a failure, \<open>cancel\<close> succeeds, every row with the batch id is canceled
  afterwards, and the store is unchanged when there is no such row.\<close>

lemma cancel_succeeds: "\<not> write_fails e \<Longrightarrow> fst (cancel e bid s) = Inr ()"
  by (simp add: cancel_eq)

lemma cancel_sets_flag:
  assumes "\<not> write_fails e"
    and "r \<in> set (batch_process (snd (cancel e bid s)))"
    and "pr_batch_id r = bid"
  shows "pr_canceled r = 1"
proof -
  from assms(1,2) in_updated
    [of r "\<lambda>r. pr_batch_id r = bid"
        "\<lambda>r. r\<lparr>pr_canceled := 1, pr_updated_at := current_timestamp e\<rparr>" "batch_process s"]
  obtain r0 where "r0 \<in> set (batch_process s)"
    and "r = (if pr_batch_id r0 = bid
              then r0\<lparr>pr_canceled := 1, pr_updated_at := current_timestamp e\<rparr> else r0)"
    by (auto simp: cancel_eq)
  with assms(3) show ?thesis
    by (cases "pr_batch_id r0 = bid") simp_all
qed

lemma cancel_of_missing_batch:
  assumes "\<not> write_fails e"
    and "bid \<notin> set (map pr_batch_id (batch_process s))"
  shows "snd (cancel e bid s) = s"
proof -
  from assms(2) have "\<forall>r\<in>set (batch_process s). \<not> pr_batch_id r = bid"
    by auto
  then have "map (\<lambda>r. if pr_batch_id r = bid
                      then r\<lparr>pr_canceled := 1, pr_updated_at := current_timestamp e\<rparr> else r)
               (batch_process s) = batch_process s"
    by (rule update_none)
  with assms(1) show ?thesis
    by (simp add: cancel_eq)
qed

end
